theory Spec2Isabelle
  imports Main "HOL-Library.Word" "HOL-Library.List_Lexorder" "HOL-Library.Sublist"
    "HOL-Library.AList"
begin

unbundle bit_operations_syntax

section \<open>Python values\<close>

text \<open>
  A Python \<open>str\<close> is a sequence of Unicode code points; it is modelled as a list of
  natural numbers (each below \<open>0x110000\<close> in a real \<open>str\<close>). Comparison of two
  \<open>str\<close> values in Python is lexicographic on code points, which is the order
  \<^theory_text>\<open>List_Lexorder\<close> gives to \<open>nat list\<close>. \<open>str_of\<close> reads an ASCII literal.
\<close>

type_synonym pystr = "nat list"

definition str_of :: "string \<Rightarrow> pystr" where
  "str_of s = map of_char s"

text \<open>
  A Python \<open>float\<close> is not computed with: the model keeps the decimal literal it was
  read from, or one of the three constants Python's \<open>json\<close> module reads and writes.
\<close>

datatype pyfloat = Float_literal pystr | Float_nan | Float_inf | Float_neg_inf

text \<open>
  The exceptions the modelled code can raise, by class; messages and positions are
  not modelled. \<open>NameError\<close> and \<open>AttributeError\<close> carry the name that was looked
  up, \<open>UnicodeEncodeError\<close> the code point that cannot be encoded.
  \<open>JSONDecodeError\<close> is the one \<open>json.loads\<close> raises (in Python a subclass of
  \<open>ValueError\<close>); \<open>ValueError\<close> stands for every other \<open>ValueError\<close>.
  \<open>RequestException\<close> is what the HTTP transport raises. \<open>SystemError\<close> and
  \<open>RecursionError\<close> mark states that do not occur in a run of the program: an
  address outside the heap, and a recursion counter of the model that ran out.
\<close>

datatype exn =
    NameError pystr
  | AttributeError pystr
  | TypeError
  | ValueError
  | JSONDecodeError
  | UnicodeEncodeError nat
  | RecursionError
  | SystemError
  | RequestException

definition bindE :: "exn + 'a \<Rightarrow> ('a \<Rightarrow> exn + 'b) \<Rightarrow> exn + 'b" where
  "bindE m f = (case m of Inl e \<Rightarrow> Inl e | Inr x \<Rightarrow> f x)"

fun sequenceE :: "(exn + 'a) list \<Rightarrow> exn + 'a list" where
  "sequenceE [] = Inr []"
| "sequenceE (m # ms) =
     (case m of
        Inl e \<Rightarrow> Inl e
      | Inr x \<Rightarrow> (case sequenceE ms of Inl e \<Rightarrow> Inl e | Inr xs \<Rightarrow> Inr (x # xs)))"

text \<open>
  Values as trees: what \<open>json.dumps\<close> reads and what \<open>json.loads\<close> builds.
  \<open>PDict\<close> is a \<open>dict\<close> with \<open>str\<close> keys, in insertion order; \<open>PTuple\<close> is an
  instance of a class made by \<open>collections.namedtuple\<close>: a tuple whose positions
  also have names.
\<close>

datatype pyval =
    PNone
  | PBool bool
  | PInt int
  | PFloat pyfloat
  | PStr pystr
  | PList "pyval list"
  | PDict "(pystr \<times> pyval) list"
  | PTuple "(pystr \<times> pyval) list"

section \<open>The enumerations of Client.py\<close>

datatype ApiVersion = v2_10_0

datatype ActionType =
    PEOPLE_PROFILE
  | DRIVER_PROFILE
  | TAXI_PROFILE
  | TAXI_DRIVER_MAPPING
  | VEHICLE_MODEL_PROFILE
  | DRIVER_TRIP_TRANSACTION
  | DRIVER_TRIP_SUMMARY
  | DRIVER_RECENT_TRIP_SUMMARY
  | DRIVER_BLOCK_REASON
  | DRIVER_CANCEL_REASON
  | DRIVER_CREDIT_DEBIT

datatype DateType = CREATE_TIME | CREATE_DATE

datatype TransactionType = CREDIT | DEBIT

datatype HttpHeader = HMAC | AUTH | CSRF

text \<open>The \<open>.value\<close> of each member: the string on the right of its definition.\<close>

fun ApiVersion_value :: "ApiVersion \<Rightarrow> pystr" where
  "ApiVersion_value v2_10_0 = str_of ''v2_10_0''"

fun ActionType_value :: "ActionType \<Rightarrow> pystr" where
  "ActionType_value PEOPLE_PROFILE = str_of ''PEOPLE_PROFILE''"
| "ActionType_value DRIVER_PROFILE = str_of ''DRIVER_PROFILE''"
| "ActionType_value TAXI_PROFILE = str_of ''TAXI_PROFILE''"
| "ActionType_value TAXI_DRIVER_MAPPING = str_of ''TAXI_DRIVER_MAPPING''"
| "ActionType_value VEHICLE_MODEL_PROFILE = str_of ''VEHICLE_MODEL_PROFILE''"
| "ActionType_value DRIVER_TRIP_TRANSACTION = str_of ''DRIVER_TRIP_TRANSACTION''"
| "ActionType_value DRIVER_TRIP_SUMMARY = str_of ''DRIVER_TRIP_SUMMARY''"
| "ActionType_value DRIVER_RECENT_TRIP_SUMMARY = str_of ''DRIVER_RECENT_TRIP_SUMMARY''"
| "ActionType_value DRIVER_BLOCK_REASON = str_of ''DRIVER_BLOCK_REASON''"
| "ActionType_value DRIVER_CANCEL_REASON = str_of ''DRIVER_CANCEL_REASON''"
| "ActionType_value DRIVER_CREDIT_DEBIT = str_of ''DRIVER_CREDIT_DEBIT''"

fun DateType_value :: "DateType \<Rightarrow> pystr" where
  "DateType_value CREATE_TIME = str_of ''CREATE_TIME''"
| "DateType_value CREATE_DATE = str_of ''CREATE_DATE''"

fun TransactionType_value :: "TransactionType \<Rightarrow> pystr" where
  "TransactionType_value CREDIT = str_of ''CREDIT''"
| "TransactionType_value DEBIT = str_of ''DEBIT''"

fun HttpHeader_value :: "HttpHeader \<Rightarrow> pystr" where
  "HttpHeader_value HMAC = str_of ''HMAC''"
| "HttpHeader_value AUTH = str_of ''AUTH''"
| "HttpHeader_value CSRF = str_of ''CSRF''"

section \<open>The standard library's \<open>json.dumps\<close>, as \<open>Serializer.to_json\<close> calls it\<close>

text \<open>
  \<open>to_json\<close> calls \<open>json.dumps(self, default=lambda o: o.__dict__, sort_keys=True,
  indent=4)\<close>. The definitions below follow CPython's \<open>json.encoder\<close> for these
  arguments: \<open>ensure_ascii\<close> is on, the item separator is a comma followed by a
  newline and the indentation, the key separator is a colon and a space.
\<close>

fun join :: "'a list \<Rightarrow> 'a list list \<Rightarrow> 'a list" where
  "join sep [] = []"
| "join sep [x] = x"
| "join sep (x # y # ys) = x @ sep @ join sep (y # ys)"

text \<open>\<open>'{0:04x}'.format(n)\<close> for \<open>n < 0x10000\<close>: four lowercase hexadecimal digits.\<close>

definition hex_digit :: "nat \<Rightarrow> nat" where
  "hex_digit d = (if d < 10 then 48 + d else 87 + d)"

definition hex4 :: "nat \<Rightarrow> pystr" where
  "hex4 n = map hex_digit [n div 4096 mod 16, n div 256 mod 16, n div 16 mod 16, n mod 16]"

text \<open>
  \<open>py_encode_basestring_ascii\<close>: the backslash, the double quote and every code
  point outside the range from space to tilde are escaped; a code point beyond the
  basic plane is written as a surrogate pair.
\<close>

definition escape_ascii :: "nat \<Rightarrow> pystr" where
  "escape_ascii c =
     (if c = 92 then [92, 92]
      else if c = 34 then [92, 34]
      else if c = 8 then [92, 98]
      else if c = 12 then [92, 102]
      else if c = 10 then [92, 110]
      else if c = 13 then [92, 114]
      else if c = 9 then [92, 116]
      else if 32 \<le> c \<and> c \<le> 126 then [c]
      else if c < 65536 then [92, 117] @ hex4 c
      else (let n = c - 65536;
                s1 = 55296 + n div 1024 mod 1024;
                s2 = 56320 + n mod 1024
            in [92, 117] @ hex4 s1 @ [92, 117] @ hex4 s2))"

definition encode_basestring_ascii :: "pystr \<Rightarrow> pystr" where
  "encode_basestring_ascii s = [34] @ concat (map escape_ascii s) @ [34]"

text \<open>\<open>int.__repr__\<close>: decimal digits, with a minus sign for a negative number.\<close>

fun dec_digits :: "nat \<Rightarrow> pystr" where
  "dec_digits n = (if n < 10 then [48 + n] else dec_digits (n div 10) @ [48 + n mod 10])"

declare dec_digits.simps [simp del]

definition int_repr :: "int \<Rightarrow> pystr" where
  "int_repr i = (if i < 0 then 45 # dec_digits (nat (- i)) else dec_digits (nat i))"

text \<open>
  \<open>floatstr\<close>: the three constants have fixed spellings; for every other float the
  text is \<open>float.__repr__\<close> of the double, taken here as a parameter \<open>fr\<close> that maps
  the literal the float was read from to that text.
\<close>

fun floatstr :: "(pystr \<Rightarrow> pystr) \<Rightarrow> pyfloat \<Rightarrow> pystr" where
  "floatstr fr Float_nan = str_of ''NaN''"
| "floatstr fr Float_inf = str_of ''Infinity''"
| "floatstr fr Float_neg_inf = str_of ''-Infinity''"
| "floatstr fr (Float_literal l) = fr l"

definition newline_indent :: "nat \<Rightarrow> pystr" where
  "newline_indent lvl = 10 # replicate (4 * lvl) 32"

text \<open>
  \<open>_iterencode\<close>, \<open>_iterencode_list\<close> and \<open>_iterencode_dict\<close> of \<open>json.encoder\<close>,
  with the chunks already joined. A tuple (so also a named tuple) is written as a
  list. With \<open>sort_keys\<close> the items of a dict are sorted; its keys are distinct
  strings, so the items are ordered by key.
\<close>

fun iterencode :: "(pystr \<Rightarrow> pystr) \<Rightarrow> nat \<Rightarrow> pyval \<Rightarrow> pystr" where
  "iterencode fr lvl (PStr s) = encode_basestring_ascii s"
| "iterencode fr lvl PNone = str_of ''null''"
| "iterencode fr lvl (PBool b) = (if b then str_of ''true'' else str_of ''false'')"
| "iterencode fr lvl (PInt i) = int_repr i"
| "iterencode fr lvl (PFloat f) = floatstr fr f"
| "iterencode fr lvl (PList vs) =
     (if vs = [] then str_of ''[]''
      else str_of ''['' @ newline_indent (lvl + 1)
           @ join (str_of '','' @ newline_indent (lvl + 1))
               (map (iterencode fr (lvl + 1)) vs)
           @ newline_indent lvl @ str_of '']'')"
| "iterencode fr lvl (PTuple kvs) =
     (if kvs = [] then str_of ''[]''
      else str_of ''['' @ newline_indent (lvl + 1)
           @ join (str_of '','' @ newline_indent (lvl + 1))
               (map (\<lambda>(k, v). iterencode fr (lvl + 1) v) kvs)
           @ newline_indent lvl @ str_of '']'')"
| "iterencode fr lvl (PDict kvs) =
     (if kvs = [] then str_of ''{}''
      else str_of ''{'' @ newline_indent (lvl + 1)
           @ join (str_of '','' @ newline_indent (lvl + 1))
               (map (\<lambda>(k, v). encode_basestring_ascii k @ str_of '': ''
                                 @ iterencode fr (lvl + 1) v)
                    (sort_key fst kvs))
           @ newline_indent lvl @ str_of ''}'')"

definition json_dumps :: "(pystr \<Rightarrow> pystr) \<Rightarrow> pyval \<Rightarrow> pystr" where
  "json_dumps fr v = iterencode fr 0 v"

section \<open>Objects on the heap\<close>

text \<open>
  Instances and lists are mutable and are passed by reference, so they live in a
  heap: a list of objects, an address being an index into it. Allocation appends.
  An instance is its \<open>__dict__\<close>: the attributes in the order they were first set.
\<close>

datatype val = VNone | VBool bool | VInt int | VFloat pyfloat | VStr pystr | VRef nat

datatype obj = Instance "(pystr \<times> val) list" | ListObj "val list"

type_synonym heap = "obj list"

definition new_object :: "heap \<Rightarrow> nat \<times> heap" where
  "new_object h = (length h, h @ [Instance []])"

definition new_list :: "val list \<Rightarrow> heap \<Rightarrow> nat \<times> heap" where
  "new_list vs h = (length h, h @ [ListObj vs])"

text \<open>
  \<open>self.name = v\<close>. Setting an attribute that exists keeps its position, a new one
  goes last, as in a \<open>dict\<close>. An address outside the heap does not occur in Python;
  the model answers \<open>SystemError\<close> there.
\<close>

definition setattr :: "nat \<Rightarrow> pystr \<Rightarrow> val \<Rightarrow> heap \<Rightarrow> exn + heap" where
  "setattr self name v h =
     (if self < length h then
        (case h ! self of
           Instance attrs \<Rightarrow> Inr (h[self := Instance (AList.update name v attrs)])
         | ListObj vs \<Rightarrow> Inl (AttributeError name))
      else Inl SystemError)"

text \<open>\<open>o.name\<close> for an instance attribute.\<close>

definition getattr :: "heap \<Rightarrow> val \<Rightarrow> pystr \<Rightarrow> exn + val" where
  "getattr h o' name =
     (case o' of
        VRef a \<Rightarrow>
          (if a < length h then
             (case h ! a of
                Instance attrs \<Rightarrow>
                  (case map_of attrs name of
                     Some v \<Rightarrow> Inr v
                   | None \<Rightarrow> Inl (AttributeError name))
              | ListObj vs \<Rightarrow> Inl (AttributeError name))
           else Inl SystemError)
      | _ \<Rightarrow> Inl (AttributeError name))"

text \<open>A method body is a sequence of statements, each of which may raise.\<close>

type_synonym stmt = "heap \<Rightarrow> exn + heap"

fun run :: "stmt list \<Rightarrow> stmt" where
  "run [] h = Inr h"
| "run (s # ss) h = bindE (s h) (run ss)"

text \<open>\<open>self.name = []\<close>: a fresh list object each time.\<close>

definition set_new_list :: "nat \<Rightarrow> pystr \<Rightarrow> stmt" where
  "set_new_list self name h = (let (l, h1) = new_list [] h in setattr self name (VRef l) h1)"

text \<open>\<open>C(args)\<close>: a new instance, then \<open>C.__init__(self, args)\<close>.\<close>

definition instantiate :: "(nat \<Rightarrow> stmt) \<Rightarrow> heap \<Rightarrow> exn + nat \<times> heap" where
  "instantiate init h =
     (let (self, h1) = new_object h in bindE (init self h1) (\<lambda>h2. Inr (self, h2)))"

text \<open>
  A bare name used as an expression. \<open>True\<close>, \<open>False\<close> and \<open>None\<close> are the
  constants. The names Client.py binds at module level (its imports, classes,
  functions and \<open>clientConfig\<close>) denote objects that are not values of this
  model. No other name that the modelled code mentions is bound in the module or in
  the builtins: evaluating it raises \<open>NameError\<close>.
\<close>

datatype binding = Constant val | Module_object

definition module_level_names :: "pystr list" where
  "module_level_names = map str_of
     [''namedtuple'', ''Enum'', ''datetime'', ''hashlib'', ''hmac'', ''json'', ''requests'',
      ''uuid'', ''ApiVersion'', ''ActionType'', ''DateType'', ''TransactionType'',
      ''HttpHeader'', ''json_object_hook'', ''json_to_object'', ''generate_hmac'',
      ''post_http_request'', ''ClientConfig'', ''Sorter'', ''Serializer'', ''GatewayRequest'',
      ''BaseReportRequest'', ''PeopleProfileReportRequest'', ''TaxiProfileReportRequest'',
      ''VehicleModelProfileReportRequest'', ''DriverProfileReportRequest'',
      ''DriverTripTransactionReportRequest'', ''DriverTripSummaryReportRequest'',
      ''DriverBlockReasonSummaryReportRequest'', ''DriverCancelReasonProfileReportRequest'',
      ''DriverCreditDebitReportRequest'', ''process_gateway_request'',
      ''fetch_people_profile'', ''fetch_driver_profile'', ''fetch_taxi_profile'',
      ''fetch_taxi_driver_mapping'', ''fetch_vehicle_model_profile'',
      ''fetch_driver_trip_transaction'', ''fetch_driver_trip_summary'',
      ''fetch_driver_recent_trip_summary'', ''fetch_driver_block_reason'',
      ''fetch_driver_cancel_reason'', ''fetch_driver_credit_debit'',
      ''build_uat_client_config'', ''build_stage_client_config'',
      ''build_prod_client_config'', ''clientConfig'', ''test_fetch_people_profile'',
      ''test_fetch_driver_profile'', ''test_fetch_driver_trip_transaction'',
      ''test_fetch_driver_trip_summary'', ''test_fetch_driver_block_reason'']"

definition lookup_name :: "pystr \<Rightarrow> exn + binding" where
  "lookup_name n =
     (if n = str_of ''True'' then Inr (Constant (VBool True))
      else if n = str_of ''False'' then Inr (Constant (VBool False))
      else if n = str_of ''None'' then Inr (Constant VNone)
      else if n \<in> set module_level_names then Inr Module_object
      else Inl (NameError n))"

text \<open>\<open>self.name = n\<close> for a bare name \<open>n\<close> on the right.\<close>

definition set_from_name :: "nat \<Rightarrow> pystr \<Rightarrow> pystr \<Rightarrow> stmt" where
  "set_from_name self name n h =
     bindE (lookup_name n)
       (\<lambda>b. case b of Constant v \<Rightarrow> setattr self name v h | Module_object \<Rightarrow> Inl SystemError)"

section \<open>Gateway components and requests\<close>

definition ClientConfig_init :: "nat \<Rightarrow> val \<Rightarrow> val \<Rightarrow> val \<Rightarrow> val \<Rightarrow> stmt" where
  "ClientConfig_init self serviceEndpoint hmacSecret authToken csrfToken =
     run [setattr self (str_of ''serviceEndpoint'') serviceEndpoint,
          setattr self (str_of ''hmacSecret'') hmacSecret,
          setattr self (str_of ''authToken'') authToken,
          setattr self (str_of ''csrfToken'') csrfToken]"

definition Sorter_init :: "nat \<Rightarrow> val \<Rightarrow> val \<Rightarrow> stmt" where
  "Sorter_init self field DESC =
     run [setattr self (str_of ''field'') field,
          setattr self (str_of ''DESC'') DESC]"

text \<open>
  \<open>GatewayRequest.__init__\<close>. The two impure calls, \<open>str(uuid.uuid4())\<close> and
  \<open>datetime.datetime.now().isoformat()\<close>, are inputs: the strings they return at
  this call.
\<close>

definition GatewayRequest_init :: "pystr \<Rightarrow> pystr \<Rightarrow> nat \<Rightarrow> ActionType \<Rightarrow> val \<Rightarrow> stmt" where
  "GatewayRequest_init uuid4 now self actionType requestData =
     run [setattr self (str_of ''apiVersion'') (VStr (ApiVersion_value v2_10_0)),
          setattr self (str_of ''messageId'') (VStr uuid4),
          setattr self (str_of ''requestDate'') (VStr now),
          setattr self (str_of ''validateOnly'') (VBool False),
          setattr self (str_of ''actionType'') (VStr (ActionType_value actionType)),
          setattr self (str_of ''requestData'') requestData]"

definition BaseReportRequest_init :: "nat \<Rightarrow> stmt" where
  "BaseReportRequest_init self =
     run [setattr self (str_of ''fromStaff'') (VBool False),
          setattr self (str_of ''fromPortal'') (VBool False),
          setattr self (str_of ''pagingEnabled'') (VBool True),
          setattr self (str_of ''pageSize'') (VInt 10),
          setattr self (str_of ''pageIndex'') (VInt 0),
          setattr self (str_of ''exportEnabled'') (VBool False),
          set_new_list self (str_of ''sorters'')]"

definition PeopleProfileReportRequest_init :: "nat \<Rightarrow> stmt" where
  "PeopleProfileReportRequest_init self =
     run [BaseReportRequest_init self,
          setattr self (str_of ''peopleId'') VNone,
          setattr self (str_of ''withDriverTripSummary'') (VBool False),
          setattr self (str_of ''withoutEmptyDriverTripSummary'') (VBool False)]"

definition TaxiProfileReportRequest_init :: "nat \<Rightarrow> stmt" where
  "TaxiProfileReportRequest_init self =
     run [BaseReportRequest_init self,
          setattr self (str_of ''taxiId'') VNone]"

definition VehicleModelProfileReportRequest_init :: "nat \<Rightarrow> stmt" where
  "VehicleModelProfileReportRequest_init self =
     run [BaseReportRequest_init self,
          setattr self (str_of ''modelId'') VNone]"

definition DriverProfileReportRequest_init :: "nat \<Rightarrow> stmt" where
  "DriverProfileReportRequest_init self =
     run [BaseReportRequest_init self,
          setattr self (str_of ''driverId'') VNone,
          setattr self (str_of ''withDriverTripSummary'') (VBool False),
          setattr self (str_of ''withoutEmptyDriverTripSummary'') (VBool False)]"

definition DriverTripTransactionReportRequest_init :: "nat \<Rightarrow> stmt" where
  "DriverTripTransactionReportRequest_init self =
     run [BaseReportRequest_init self,
          setattr self (str_of ''transactionId'') VNone,
          setattr self (str_of ''driverId'') VNone,
          setattr self (str_of ''tripId'') VNone,
          set_new_list self (str_of ''transactionTypes''),
          set_new_list self (str_of ''transactionCategories''),
          setattr self (str_of ''minAmountInRupee'') VNone,
          setattr self (str_of ''maxAmountInRupee'') VNone,
          setattr self (str_of ''minAmountInCents'') VNone,
          setattr self (str_of ''maxAmountInCents'') VNone,
          setattr self (str_of ''description'') VNone,
          setattr self (str_of ''dateType'') (VStr (DateType_value CREATE_TIME)),
          setattr self (str_of ''fromDate'') VNone,
          setattr self (str_of ''toDate'') VNone,
          setattr self (str_of ''createdBy'') VNone,
          setattr self (str_of ''withDriverProfile'') (VBool False)]"

definition DriverTripSummaryReportRequest_init :: "nat \<Rightarrow> stmt" where
  "DriverTripSummaryReportRequest_init self =
     run [DriverTripTransactionReportRequest_init self]"

definition DriverBlockReasonSummaryReportRequest_init :: "nat \<Rightarrow> stmt" where
  "DriverBlockReasonSummaryReportRequest_init self =
     run [BaseReportRequest_init self,
          setattr self (str_of ''driverId'') VNone]"

definition DriverCancelReasonProfileReportRequest_init :: "nat \<Rightarrow> stmt" where
  "DriverCancelReasonProfileReportRequest_init self =
     run [BaseReportRequest_init self,
          setattr self (str_of ''reasonId'') VNone]"

definition DriverCreditDebitReportRequest_init :: "nat \<Rightarrow> stmt" where
  "DriverCreditDebitReportRequest_init self =
     run [DriverTripTransactionReportRequest_init self,
          set_from_name self (str_of ''withTaxiDriverMapping'') (str_of ''false'')]"

text \<open>The zero-argument constructor calls, and the calls with arguments.\<close>

definition ClientConfig :: "val \<Rightarrow> val \<Rightarrow> val \<Rightarrow> val \<Rightarrow> heap \<Rightarrow> exn + nat \<times> heap" where
  "ClientConfig serviceEndpoint hmacSecret authToken csrfToken =
     instantiate (\<lambda>self. ClientConfig_init self serviceEndpoint hmacSecret authToken csrfToken)"

definition Sorter :: "val \<Rightarrow> val \<Rightarrow> heap \<Rightarrow> exn + nat \<times> heap" where
  "Sorter field DESC = instantiate (\<lambda>self. Sorter_init self field DESC)"

definition GatewayRequest ::
  "pystr \<Rightarrow> pystr \<Rightarrow> ActionType \<Rightarrow> val \<Rightarrow> heap \<Rightarrow> exn + nat \<times> heap" where
  "GatewayRequest uuid4 now actionType requestData =
     instantiate (\<lambda>self. GatewayRequest_init uuid4 now self actionType requestData)"

definition BaseReportRequest :: "heap \<Rightarrow> exn + nat \<times> heap" where
  "BaseReportRequest = instantiate BaseReportRequest_init"

definition PeopleProfileReportRequest :: "heap \<Rightarrow> exn + nat \<times> heap" where
  "PeopleProfileReportRequest = instantiate PeopleProfileReportRequest_init"

definition TaxiProfileReportRequest :: "heap \<Rightarrow> exn + nat \<times> heap" where
  "TaxiProfileReportRequest = instantiate TaxiProfileReportRequest_init"

definition VehicleModelProfileReportRequest :: "heap \<Rightarrow> exn + nat \<times> heap" where
  "VehicleModelProfileReportRequest = instantiate VehicleModelProfileReportRequest_init"

definition DriverProfileReportRequest :: "heap \<Rightarrow> exn + nat \<times> heap" where
  "DriverProfileReportRequest = instantiate DriverProfileReportRequest_init"

definition DriverTripTransactionReportRequest :: "heap \<Rightarrow> exn + nat \<times> heap" where
  "DriverTripTransactionReportRequest = instantiate DriverTripTransactionReportRequest_init"

definition DriverTripSummaryReportRequest :: "heap \<Rightarrow> exn + nat \<times> heap" where
  "DriverTripSummaryReportRequest = instantiate DriverTripSummaryReportRequest_init"

definition DriverBlockReasonSummaryReportRequest :: "heap \<Rightarrow> exn + nat \<times> heap" where
  "DriverBlockReasonSummaryReportRequest = instantiate DriverBlockReasonSummaryReportRequest_init"

definition DriverCancelReasonProfileReportRequest :: "heap \<Rightarrow> exn + nat \<times> heap" where
  "DriverCancelReasonProfileReportRequest =
     instantiate DriverCancelReasonProfileReportRequest_init"

definition DriverCreditDebitReportRequest :: "heap \<Rightarrow> exn + nat \<times> heap" where
  "DriverCreditDebitReportRequest = instantiate DriverCreditDebitReportRequest_init"

section \<open>\<open>Serializer.to_json\<close>\<close>

text \<open>
  \<open>json.dumps\<close> walks the object graph. For an instance it calls the \<open>default\<close>
  argument, here \<open>lambda o: o.__dict__\<close>, and goes on with the dict; an object
  met again on the path from the root raises \<open>ValueError\<close> (the encoder's
  \<open>markers\<close>). \<open>snapshot\<close> is that walk, returning the tree that is then written.
\<close>

function snapshot :: "heap \<Rightarrow> nat set \<Rightarrow> val \<Rightarrow> exn + pyval" where
  "snapshot h ms VNone = Inr PNone"
| "snapshot h ms (VBool b) = Inr (PBool b)"
| "snapshot h ms (VInt i) = Inr (PInt i)"
| "snapshot h ms (VFloat f) = Inr (PFloat f)"
| "snapshot h ms (VStr s) = Inr (PStr s)"
| "snapshot h ms (VRef a) =
     (if a \<in> ms then Inl ValueError
      else if a < length h then
        (case h ! a of
           ListObj vs \<Rightarrow>
             bindE (sequenceE (map (snapshot h (insert a ms)) vs)) (\<lambda>ts. Inr (PList ts))
         | Instance attrs \<Rightarrow>
             bindE (sequenceE (map (\<lambda>(k, v). bindE (snapshot h (insert a ms) v)
                                               (\<lambda>t. Inr (k, t))) attrs))
               (\<lambda>kts. Inr (PDict kts)))
      else Inl SystemError)"
  by pat_completeness auto
termination
proof (relation "measure (\<lambda>(h, ms, v). card ({..<length h} - ms))", goal_cases)
  case 1
  show ?case by simp
next
  case (2 h ms a attrs p k v)
  then have "card ({..<length h} - insert a ms) < card ({..<length h} - ms)"
    by (intro psubset_card_mono) auto
  then show ?case by simp
next
  case (3 h ms a vs v)
  then have "card ({..<length h} - insert a ms) < card ({..<length h} - ms)"
    by (intro psubset_card_mono) auto
  then show ?case by simp
qed

definition to_json :: "(pystr \<Rightarrow> pystr) \<Rightarrow> heap \<Rightarrow> nat \<Rightarrow> exn + pystr" where
  "to_json fr h self = bindE (snapshot h {} (VRef self)) (\<lambda>t. Inr (json_dumps fr t))"


section \<open>Notions used to state the properties\<close>

text \<open>
  Every \<open>dict\<close> has distinct keys. For the attribute lists on the heap and for the
  trees read from it this is an invariant, stated by \<open>wf_heap\<close> and
  \<open>distinct_keys\<close>.
\<close>

definition wf_heap :: "heap \<Rightarrow> bool" where
  "wf_heap h =
     (\<forall>ob \<in> set h. case ob of Instance attrs \<Rightarrow> distinct (map fst attrs) | ListObj vs \<Rightarrow> True)"

fun distinct_keys :: "pyval \<Rightarrow> bool" where
  "distinct_keys (PList vs) = (\<forall>v \<in> set vs. distinct_keys v)"
| "distinct_keys (PDict kvs) =
     (distinct (map fst kvs) \<and> (\<forall>(k, v) \<in> set kvs. distinct_keys v))"
| "distinct_keys (PTuple kvs) = (\<forall>(k, v) \<in> set kvs. distinct_keys v)"
| "distinct_keys v = True"

text \<open>
  Two values have the same fields when they agree up to the order in which the keys
  of each dict were inserted: lists and tuples position by position, dicts key by key.
\<close>

fun same_fields :: "pyval \<Rightarrow> pyval \<Rightarrow> bool" where
  "same_fields (PList vs) (PList ws) = list_all2 same_fields vs ws"
| "same_fields (PTuple xs) (PTuple ys) =
     list_all2 (\<lambda>(k, v) (k', w). k = k' \<and> same_fields v w) xs ys"
| "same_fields (PDict xs) (PDict ys) =
     (set (map fst xs) = set (map fst ys)
      \<and> (\<forall>(k, v) \<in> set xs. \<forall>(k', w) \<in> set ys. k = k' \<longrightarrow> same_fields v w))"
| "same_fields v w = (v = w)"

section \<open>Example values\<close>

text \<open>
  Two heaps holding the same report request, a page size, one sorter and an unset
  driver id, built in different orders and at different addresses.
\<close>

definition example_heap_a :: heap where
  "example_heap_a =
     [Instance [(str_of ''pageSize'', VInt 10), (str_of ''sorters'', VRef 1),
                (str_of ''driverId'', VNone)],
      ListObj [VRef 2],
      Instance [(str_of ''field'', VStr (str_of ''driverId'')), (str_of ''DESC'', VBool True)]]"

definition example_heap_b :: heap where
  "example_heap_b =
     [Instance [(str_of ''DESC'', VBool True), (str_of ''field'', VStr (str_of ''driverId''))],
      ListObj [VRef 0],
      Instance [(str_of ''driverId'', VNone), (str_of ''sorters'', VRef 1),
                (str_of ''pageSize'', VInt 10)]]"

definition example_tree_a :: pyval where
  "example_tree_a =
     PDict [(str_of ''pageSize'', PInt 10),
            (str_of ''sorters'',
               PList [PDict [(str_of ''field'', PStr (str_of ''driverId'')),
                             (str_of ''DESC'', PBool True)]]),
            (str_of ''driverId'', PNone)]"

definition example_tree_b :: pyval where
  "example_tree_b =
     PDict [(str_of ''driverId'', PNone),
            (str_of ''sorters'',
               PList [PDict [(str_of ''DESC'', PBool True),
                             (str_of ''field'', PStr (str_of ''driverId''))]]),
            (str_of ''pageSize'', PInt 10)]"

section \<open>\<open>hashlib.sha256\<close> and \<open>hmac\<close>, as \<open>generate_hmac\<close> calls them\<close>

type_synonym byte = "8 word"

type_synonym u32 = "32 word"

text \<open>
  \<open>str.encode('utf-8')\<close>: one to four bytes for each code point. A surrogate has no
  UTF-8 encoding: the call raises \<open>UnicodeEncodeError\<close>, here with the offending code
  point.
\<close>

definition utf8_code_point :: "nat \<Rightarrow> exn + byte list" where
  "utf8_code_point c =
     (if c < 128 then Inr [of_nat c]
      else if c < 2048 then Inr [of_nat (192 + c div 64), of_nat (128 + c mod 64)]
      else if 55296 \<le> c \<and> c \<le> 57343 then Inl (UnicodeEncodeError c)
      else if c < 65536 then
        Inr [of_nat (224 + c div 4096), of_nat (128 + c div 64 mod 64), of_nat (128 + c mod 64)]
      else
        Inr [of_nat (240 + c div 262144), of_nat (128 + c div 4096 mod 64),
             of_nat (128 + c div 64 mod 64), of_nat (128 + c mod 64)])"

definition str_encode_utf8 :: "pystr \<Rightarrow> exn + byte list" where
  "str_encode_utf8 s = bindE (sequenceE (map utf8_code_point s)) (\<lambda>bs. Inr (concat bs))"

text \<open>
  SHA-256 as in FIPS 180-4: constants, the six functions, padding, the compression.
  The round constants are the first 32 bits of the fractional parts of the cube roots
  of the first 64 primes, the initial state those of the square roots of the first 8.
\<close>

definition K256 :: "u32 list" where
  "K256 =
     [1116352408, 1899447441, 3049323471, 3921009573, 961987163, 1508970993,
      2453635748, 2870763221, 3624381080, 310598401, 607225278, 1426881987,
      1925078388, 2162078206, 2614888103, 3248222580, 3835390401, 4022224774,
      264347078, 604807628, 770255983, 1249150122, 1555081692, 1996064986,
      2554220882, 2821834349, 2952996808, 3210313671, 3336571891, 3584528711,
      113926993, 338241895, 666307205, 773529912, 1294757372, 1396182291,
      1695183700, 1986661051, 2177026350, 2456956037, 2730485921, 2820302411,
      3259730800, 3345764771, 3516065817, 3600352804, 4094571909, 275423344,
      430227734, 506948616, 659060556, 883997877, 958139571, 1322822218,
      1537002063, 1747873779, 1955562222, 2024104815, 2227730452, 2361852424,
      2428436474, 2756734187, 3204031479, 3329325298]"

definition Ch :: "u32 \<Rightarrow> u32 \<Rightarrow> u32 \<Rightarrow> u32" where
  "Ch x y z = (x AND y) XOR (NOT x AND z)"

definition Maj :: "u32 \<Rightarrow> u32 \<Rightarrow> u32 \<Rightarrow> u32" where
  "Maj x y z = (x AND y) XOR (x AND z) XOR (y AND z)"

definition Sigma0 :: "u32 \<Rightarrow> u32" where
  "Sigma0 x = word_rotr 2 x XOR word_rotr 13 x XOR word_rotr 22 x"

definition Sigma1 :: "u32 \<Rightarrow> u32" where
  "Sigma1 x = word_rotr 6 x XOR word_rotr 11 x XOR word_rotr 25 x"

definition sigma0 :: "u32 \<Rightarrow> u32" where
  "sigma0 x = word_rotr 7 x XOR word_rotr 18 x XOR drop_bit 3 x"

definition sigma1 :: "u32 \<Rightarrow> u32" where
  "sigma1 x = word_rotr 17 x XOR word_rotr 19 x XOR drop_bit 10 x"

text \<open>Big-endian words.\<close>

definition be32 :: "byte list \<Rightarrow> u32" where
  "be32 bs = foldl (\<lambda>w b. push_bit 8 w OR ucast b) 0 (take 4 bs)"

definition bytes_of_u32 :: "u32 \<Rightarrow> byte list" where
  "bytes_of_u32 w = [ucast (drop_bit 24 w), ucast (drop_bit 16 w), ucast (drop_bit 8 w), ucast w]"

definition bytes_of_u64 :: "64 word \<Rightarrow> byte list" where
  "bytes_of_u64 w =
     [ucast (drop_bit 56 w), ucast (drop_bit 48 w), ucast (drop_bit 40 w), ucast (drop_bit 32 w),
      ucast (drop_bit 24 w), ucast (drop_bit 16 w), ucast (drop_bit 8 w), ucast w]"

text \<open>
  The message, a one bit, zeros up to 56 modulo 64 bytes, and the length in bits
  as 64 bits.
\<close>

definition sha256_pad :: "byte list \<Rightarrow> byte list" where
  "sha256_pad m =
     m @ [128] @ replicate ((119 - length m mod 64) mod 64) 0
       @ bytes_of_u64 (of_nat (8 * length m))"

fun chunks :: "nat \<Rightarrow> 'a list \<Rightarrow> 'a list list" where
  "chunks n xs = (if n = 0 \<or> xs = [] then [] else take n xs # chunks n (drop n xs))"

declare chunks.simps [simp del]

text \<open>The message schedule: sixteen words of the block, extended to sixty-four.\<close>

fun extend_schedule :: "nat \<Rightarrow> u32 list \<Rightarrow> u32 list" where
  "extend_schedule 0 w = w"
| "extend_schedule (Suc n) w =
     extend_schedule n
       (w @ [sigma1 (w ! (length w - 2)) + w ! (length w - 7)
             + sigma0 (w ! (length w - 15)) + w ! (length w - 16)])"

definition schedule :: "byte list \<Rightarrow> u32 list" where
  "schedule block = extend_schedule 48 (map be32 (chunks 4 block))"

type_synonym sha_state = "u32 \<times> u32 \<times> u32 \<times> u32 \<times> u32 \<times> u32 \<times> u32 \<times> u32"

fun sha256_round :: "sha_state \<Rightarrow> u32 \<times> u32 \<Rightarrow> sha_state" where
  "sha256_round (a, b, c, d, e, f, g, h) (k, w) =
     (let t1 = h + Sigma1 e + Ch e f g + k + w;
          t2 = Sigma0 a + Maj a b c
      in (t1 + t2, a, b, c, d + t1, e, f, g))"

fun sha256_compress :: "sha_state \<Rightarrow> byte list \<Rightarrow> sha_state" where
  "sha256_compress (a, b, c, d, e, f, g, h) block =
     (case foldl sha256_round (a, b, c, d, e, f, g, h) (zip K256 (schedule block)) of
        (a', b', c', d', e', f', g', h') \<Rightarrow>
          (a + a', b + b', c + c', d + d', e + e', f + f', g + g', h + h'))"

definition sha256_init :: sha_state where
  "sha256_init =
     (1779033703, 3144134277, 1013904242, 2773480762,
      1359893119, 2600822924, 528734635, 1541459225)"

definition sha256 :: "byte list \<Rightarrow> byte list" where
  "sha256 m =
     (case foldl sha256_compress sha256_init (chunks 64 (sha256_pad m)) of
        (a, b, c, d, e, f, g, h) \<Rightarrow> concat (map bytes_of_u32 [a, b, c, d, e, f, g, h]))"

text \<open>
  A hash object of \<open>hashlib\<close> is the bytes it was fed; \<open>digest\<close> hashes them.
\<close>

type_synonym hash_object = "byte list"

definition sha256_new :: hash_object where
  "sha256_new = []"

definition hash_update :: "hash_object \<Rightarrow> byte list \<Rightarrow> hash_object" where
  "hash_update h d = h @ d"

definition hash_digest :: "hash_object \<Rightarrow> byte list" where
  "hash_digest h = sha256 h"

text \<open>
  \<open>hmac.new(key, msg, digestmod=hashlib.sha256)\<close> as \<open>hmac.py\<close> builds it: an inner
  and an outer hash object, the key hashed when it is longer than a block, padded
  with zeros to the block size and translated by the two pads; then the message
  goes into the inner object. \<open>hexdigest\<close> feeds the inner digest to a copy of the
  outer object and writes its digest in hexadecimal.
\<close>

record hmac_object =
  inner :: hash_object
  outer :: hash_object

definition hmac_new :: "byte list \<Rightarrow> byte list \<Rightarrow> hmac_object" where
  "hmac_new key msg =
     (let blocksize = 64;
          key1 = (if length key > blocksize then hash_digest (hash_update sha256_new key) else key);
          key2 = key1 @ replicate (blocksize - length key1) 0;
          outer0 = hash_update sha256_new (map (\<lambda>b. b XOR 0x5C) key2);
          inner0 = hash_update sha256_new (map (\<lambda>b. b XOR 0x36) key2)
      in \<lparr>inner = hash_update inner0 msg, outer = outer0\<rparr>)"

definition hmac_digest :: "hmac_object \<Rightarrow> byte list" where
  "hmac_digest hm = hash_digest (hash_update (outer hm) (hash_digest (inner hm)))"

definition hex_of_byte :: "byte \<Rightarrow> pystr" where
  "hex_of_byte b = [hex_digit (unat b div 16), hex_digit (unat b mod 16)]"

definition hmac_hexdigest :: "hmac_object \<Rightarrow> pystr" where
  "hmac_hexdigest hm = concat (map hex_of_byte (hmac_digest hm))"

text \<open>\<open>generate_hmac\<close> of Client.py.\<close>

definition generate_hmac :: "pystr \<Rightarrow> pystr \<Rightarrow> exn + pystr" where
  "generate_hmac secretKey rawJson =
     bindE (str_encode_utf8 secretKey) (\<lambda>key.
     bindE (str_encode_utf8 rawJson) (\<lambda>msg.
       Inr (hmac_hexdigest (hmac_new key msg))))"

text \<open>
  HMAC-SHA-256 as RFC 2104 states it, \<open>H((K xor opad) || H((K xor ipad) || text))\<close>
  with the key brought to the block size, and lowercase hexadecimal: the
  specification \<open>generate_hmac\<close> is compared with.
\<close>

definition rfc2104_key :: "byte list \<Rightarrow> byte list" where
  "rfc2104_key k =
     (let k' = (if length k > 64 then sha256 k else k) in k' @ replicate (64 - length k') 0)"

definition rfc2104_hmac_sha256 :: "byte list \<Rightarrow> byte list \<Rightarrow> byte list" where
  "rfc2104_hmac_sha256 k text =
     sha256 (map (\<lambda>b. b XOR 0x5C) (rfc2104_key k)
             @ sha256 (map (\<lambda>b. b XOR 0x36) (rfc2104_key k) @ text))"

definition is_lower_hex :: "nat \<Rightarrow> bool" where
  "is_lower_hex c = ((48 \<le> c \<and> c \<le> 57) \<or> (97 \<le> c \<and> c \<le> 102))"

definition lower_hex :: "byte list \<Rightarrow> pystr" where
  "lower_hex bs =
     concat (map (\<lambda>b. map (\<lambda>d. str_of ''0123456789abcdef'' ! d) [unat b div 16, unat b mod 16]) bs)"

text \<open>A string that \<open>str.encode\<close> accepts: no code point is a surrogate.\<close>

definition encodable :: "pystr \<Rightarrow> bool" where
  "encodable s = list_all (\<lambda>c. c < 55296 \<or> 57343 < c) s"

(*PROPERTIES*)
section \<open>Lemmas about the model\<close>

lemma bindE_simps [simp]:
  "bindE (Inl e) f = Inl e" "bindE (Inr x) f = f x"
  by (simp_all add: bindE_def)

lemma bindE_eq_Inr: "bindE m f = Inr y \<longleftrightarrow> (\<exists>x. m = Inr x \<and> f x = Inr y)"
  by (cases m) simp_all

lemma sequenceE_map_Inr:
  "sequenceE (map f xs) = Inr ys \<longleftrightarrow> list_all2 (\<lambda>x y. f x = Inr y) xs ys"
proof (induction xs arbitrary: ys)
  case Nil
  show ?case by auto
next
  case (Cons x xs)
  show ?case
  proof (cases "f x")
    case (Inl e)
    then show ?thesis by (auto simp: list_all2_Cons1)
  next
    case (Inr y)
    then show ?thesis
      using Cons.IH by (cases "sequenceE (map f xs)") (auto simp: list_all2_Cons1)
  qed
qed

lemma snapshot_extend:
  "snapshot h ms v = Inr t \<Longrightarrow> \<forall>a \<in> M. length h \<le> a
     \<Longrightarrow> snapshot (h @ h') (ms \<union> M) v = Inr t"
proof (induction h ms v arbitrary: t rule: snapshot.induct)
  case (6 h ms a)
  from "6.prems"(1) have a: "a \<notin> ms" "a < length h"
    by (auto split: if_splits)
  with "6.prems"(2) have a': "a \<notin> ms \<union> M" "a < length (h @ h')" "(h @ h') ! a = h ! a"
    by (auto simp: nth_append)
  show ?case
  proof (cases "h ! a")
    case (Instance attrs)
    let ?f = "\<lambda>(k, v). bindE (snapshot h (insert a ms) v) (\<lambda>t. Inr (k, t))"
    let ?g = "\<lambda>(k, v). bindE (snapshot (h @ h') (insert a (ms \<union> M)) v) (\<lambda>t. Inr (k, t))"
    from "6.prems"(1) a Instance obtain kts where
      kts: "sequenceE (map ?f attrs) = Inr kts" and t: "t = PDict kts"
      by (auto simp: bindE_eq_Inr)
    from kts have la: "list_all2 (\<lambda>x y. ?f x = Inr y) attrs kts"
      by (simp only: sequenceE_map_Inr)
    have "list_all2 (\<lambda>x y. ?g x = Inr y) attrs kts"
    proof (rule list.rel_mono_strong [OF la])
      fix x y assume xy: "x \<in> set attrs" "y \<in> set kts" "?f x = Inr y"
      obtain k v where x: "x = (k, v)" by (cases x)
      from xy(3) x obtain t' where t': "snapshot h (insert a ms) v = Inr t'" "y = (k, t')"
        by (auto simp: bindE_eq_Inr)
      have "snapshot (h @ h') (insert a ms \<union> M) v = Inr t'"
        using "6.IH"(1) [OF a Instance xy(1) x [symmetric] t'(1) "6.prems"(2)] .
      then show "?g x = Inr y" using x t' by simp
    qed
    then have "sequenceE (map ?g attrs) = Inr kts"
      by (simp only: sequenceE_map_Inr)
    then show ?thesis using a' Instance t by simp
  next
    case (ListObj vs)
    from "6.prems"(1) a ListObj obtain ts where
      ts: "sequenceE (map (snapshot h (insert a ms)) vs) = Inr ts" and t: "t = PList ts"
      by (auto simp: bindE_eq_Inr)
    from ts have la: "list_all2 (\<lambda>x y. snapshot h (insert a ms) x = Inr y) vs ts"
      by (simp only: sequenceE_map_Inr)
    have "list_all2 (\<lambda>x y. snapshot (h @ h') (insert a (ms \<union> M)) x = Inr y) vs ts"
    proof (rule list.rel_mono_strong [OF la])
      fix x y assume xy: "x \<in> set vs" "y \<in> set ts" "snapshot h (insert a ms) x = Inr y"
      have "snapshot (h @ h') (insert a ms \<union> M) x = Inr y"
        using "6.IH"(2) [OF a ListObj xy(1) xy(3) "6.prems"(2)] .
      then show "snapshot (h @ h') (insert a (ms \<union> M)) x = Inr y" by simp
    qed
    then have "sequenceE (map (snapshot (h @ h') (insert a (ms \<union> M))) vs) = Inr ts"
      by (simp only: sequenceE_map_Inr)
    then show ?thesis using a' ListObj t by simp
  qed
qed simp_all

lemma snapshot_distinct_keys:
  "wf_heap h \<Longrightarrow> snapshot h ms v = Inr t \<Longrightarrow> distinct_keys t"
proof (induction h ms v arbitrary: t rule: snapshot.induct)
  case (6 h ms a)
  from "6.prems"(2) have a: "a \<notin> ms" "a < length h"
    by (auto split: if_splits)
  show ?case
  proof (cases "h ! a")
    case (Instance attrs)
    let ?f = "\<lambda>(k, v). bindE (snapshot h (insert a ms) v) (\<lambda>t. Inr (k, t))"
    from "6.prems"(2) a Instance obtain kts where
      kts: "sequenceE (map ?f attrs) = Inr kts" and t: "t = PDict kts"
      by (auto simp: bindE_eq_Inr)
    from kts have la: "list_all2 (\<lambda>x y. ?f x = Inr y) attrs kts"
      by (simp only: sequenceE_map_Inr)
    have "list_all2 (\<lambda>x y. fst y = fst x \<and> distinct_keys (snd y)) attrs kts"
    proof (rule list.rel_mono_strong [OF la])
      fix x y assume xy: "x \<in> set attrs" "y \<in> set kts" "?f x = Inr y"
      obtain k v where x: "x = (k, v)" by (cases x)
      from xy(3) x obtain t' where t': "snapshot h (insert a ms) v = Inr t'" "y = (k, t')"
        by (auto simp: bindE_eq_Inr)
      have "distinct_keys t'"
        using "6.IH"(1) [OF a Instance xy(1) x [symmetric] "6.prems"(1) t'(1)] .
      then show "fst y = fst x \<and> distinct_keys (snd y)" using x t' by simp
    qed
    then have k: "map fst kts = map fst attrs" and d: "\<forall>y \<in> set kts. distinct_keys (snd y)"
      by (auto simp: list_all2_conv_all_nth in_set_conv_nth intro: nth_equalityI)
        (metis snd_conv)
    have "h ! a \<in> set h" using a by simp
    then have "distinct (map fst attrs)" using "6.prems"(1) Instance
      by (auto simp: wf_heap_def)
    then show ?thesis using t k d by auto
  next
    case (ListObj vs)
    from "6.prems"(2) a ListObj obtain ts where
      ts: "sequenceE (map (snapshot h (insert a ms)) vs) = Inr ts" and t: "t = PList ts"
      by (auto simp: bindE_eq_Inr)
    from ts have la: "list_all2 (\<lambda>x y. snapshot h (insert a ms) x = Inr y) vs ts"
      by (simp only: sequenceE_map_Inr)
    have "list_all2 (\<lambda>x y. distinct_keys y) vs ts"
    proof (rule list.rel_mono_strong [OF la])
      fix x y assume xy: "x \<in> set vs" "y \<in> set ts" "snapshot h (insert a ms) x = Inr y"
      show "distinct_keys y"
        using "6.IH"(2) [OF a ListObj xy(1) "6.prems"(1) xy(3)] .
    qed
    then have "\<forall>y \<in> set ts. distinct_keys y"
      by (auto simp: list_all2_conv_all_nth in_set_conv_nth)
    then show ?thesis using t by simp
  qed
qed auto

lemma sorted_keys_unique:
  fixes xs ys :: "('k::linorder \<times> 'v) list"
  assumes "distinct (map fst xs)" "distinct (map fst ys)"
    and "set (map fst xs) = set (map fst ys)"
  shows "map fst (sort_key fst xs) = map fst (sort_key fst ys)"
proof (rule sorted_distinct_set_unique)
  show "sorted (map fst (sort_key fst xs))" "sorted (map fst (sort_key fst ys))"
    by (rule sorted_sort_key)+
  show "distinct (map fst (sort_key fst xs))"
    using assms(1) by (simp add: distinct_map)
  show "distinct (map fst (sort_key fst ys))"
    using assms(2) by (simp add: distinct_map)
  show "set (map fst (sort_key fst xs)) = set (map fst (sort_key fst ys))"
    using assms(3) by simp
qed

lemma sorted_items_cong:
  fixes xs ys :: "('k::linorder \<times> 'v) list"
  assumes dx: "distinct (map fst xs)" and dy: "distinct (map fst ys)"
    and keys: "set (map fst xs) = set (map fst ys)"
    and vals: "\<And>k v w. (k, v) \<in> set xs \<Longrightarrow> (k, w) \<in> set ys \<Longrightarrow> g v = g w"
  shows "map (\<lambda>(k, v). F k (g v)) (sort_key fst xs) = map (\<lambda>(k, v). F k (g v)) (sort_key fst ys)"
proof (rule nth_equalityI)
  have K: "map fst (sort_key fst xs) = map fst (sort_key fst ys)"
    using dx dy keys by (rule sorted_keys_unique)
  then have L: "length (sort_key fst xs) = length (sort_key fst ys)"
    by (metis length_map)
  then show "length (map (\<lambda>(k, v). F k (g v)) (sort_key fst xs))
      = length (map (\<lambda>(k, v). F k (g v)) (sort_key fst ys))"
    by simp
  fix i assume "i < length (map (\<lambda>(k, v). F k (g v)) (sort_key fst xs))"
  then have i: "i < length (sort_key fst xs)" "i < length (sort_key fst ys)"
    using L by simp_all
  obtain k v where p: "sort_key fst xs ! i = (k, v)" by (cases "sort_key fst xs ! i")
  obtain k' w where q: "sort_key fst ys ! i = (k', w)" by (cases "sort_key fst ys ! i")
  have "map fst (sort_key fst xs) ! i = map fst (sort_key fst ys) ! i"
    using K by simp
  then have kk: "k = k'" using i p q by simp
  have "(k, v) \<in> set (sort_key fst xs)" using i(1) p by (metis nth_mem)
  then have a: "(k, v) \<in> set xs" by simp
  have "(k', w) \<in> set (sort_key fst ys)" using i(2) q by (metis nth_mem)
  then have b: "(k, w) \<in> set ys" using kk by simp
  show "map (\<lambda>(k, v). F k (g v)) (sort_key fst xs) ! i
      = map (\<lambda>(k, v). F k (g v)) (sort_key fst ys) ! i"
    using i p q kk vals [OF a b] by simp
qed

lemma iterencode_same_fields:
  "distinct_keys v \<Longrightarrow> distinct_keys w \<Longrightarrow> same_fields v w
     \<Longrightarrow> iterencode fr lvl v = iterencode fr lvl w"
proof (induction v w arbitrary: lvl rule: same_fields.induct)
  case (1 vs ws)
  from "1.prems" have la: "list_all2 same_fields vs ws" by simp
  then have len: "length vs = length ws" by (rule list_all2_lengthD)
  have "map (iterencode fr (lvl + 1)) vs = map (iterencode fr (lvl + 1)) ws"
  proof (rule nth_equalityI)
    show "length (map (iterencode fr (lvl + 1)) vs) = length (map (iterencode fr (lvl + 1)) ws)"
      using len by simp
    fix i assume "i < length (map (iterencode fr (lvl + 1)) vs)"
    then have i: "i < length vs" "i < length ws" using len by simp_all
    have m: "vs ! i \<in> set vs" "ws ! i \<in> set ws" using i by simp_all
    have "same_fields (vs ! i) (ws ! i)" using la i by (simp add: list_all2_nthD)
    moreover have "distinct_keys (vs ! i)" "distinct_keys (ws ! i)"
      using "1.prems" m by simp_all
    ultimately have "iterencode fr (lvl + 1) (vs ! i) = iterencode fr (lvl + 1) (ws ! i)"
      using "1.IH" [OF m] by blast
    then show "map (iterencode fr (lvl + 1)) vs ! i = map (iterencode fr (lvl + 1)) ws ! i"
      using i by simp
  qed
  moreover have "vs = [] \<longleftrightarrow> ws = []" using len by auto
  ultimately show ?case by simp
next
  case (2 xs ys)
  let ?f = "\<lambda>(k::pystr, v). iterencode fr (lvl + 1) v"
  from "2.prems" have la: "list_all2 (\<lambda>(k, v) (k', w). k = k' \<and> same_fields v w) xs ys"
    by simp
  then have len: "length xs = length ys" by (rule list_all2_lengthD)
  have "map ?f xs = map ?f ys"
  proof (rule nth_equalityI)
    show "length (map ?f xs) = length (map ?f ys)" using len by simp
    fix i assume "i < length (map ?f xs)"
    then have i: "i < length xs" "i < length ys" using len by simp_all
    obtain k v where p: "xs ! i = (k, v)" by (cases "xs ! i")
    obtain k' w where q: "ys ! i = (k', w)" by (cases "ys ! i")
    have m: "xs ! i \<in> set xs" "ys ! i \<in> set ys" using i by simp_all
    have "(\<lambda>(k, v) (k', w). k = k' \<and> same_fields v w) (xs ! i) (ys ! i)"
      using la i by (simp add: list_all2_nthD)
    then have s: "same_fields v w" using p q by simp
    have d: "distinct_keys v" "distinct_keys w"
      using "2.prems" m p q by auto
    have "iterencode fr (lvl + 1) v = iterencode fr (lvl + 1) w"
      using "2.IH" [OF m p [symmetric], of w] d s by blast
    then show "map ?f xs ! i = map ?f ys ! i" using i p q by simp
  qed
  moreover have "xs = [] \<longleftrightarrow> ys = []" using len by auto
  ultimately show ?case by simp
next
  case (3 xs ys)
  from "3.prems" have dx: "distinct (map fst xs)" and dy: "distinct (map fst ys)"
    and keys: "set (map fst xs) = set (map fst ys)"
    by simp_all
  have vals: "iterencode fr (lvl + 1) v = iterencode fr (lvl + 1) w"
    if a: "(k, v) \<in> set xs" and b: "(k, w) \<in> set ys" for k v w
  proof -
    have "same_fields v w" using "3.prems"(3) a b by auto
    moreover have "distinct_keys v" "distinct_keys w" using "3.prems" a b by auto
    ultimately show ?thesis
      using "3.IH" [OF a refl b refl refl] by blast
  qed
  have "map (\<lambda>(k, v). (\<lambda>k r. encode_basestring_ascii k @ str_of '': '' @ r) k
            (iterencode fr (lvl + 1) v)) (sort_key fst xs)
      = map (\<lambda>(k, v). (\<lambda>k r. encode_basestring_ascii k @ str_of '': '' @ r) k
            (iterencode fr (lvl + 1) v)) (sort_key fst ys)"
    using dx dy keys vals by (rule sorted_items_cong)
  moreover have "xs = [] \<longleftrightarrow> ys = []" using keys by (metis list.map_disc_iff set_empty)
  ultimately show ?case by simp
qed simp_all

lemma str_of_eq_iff [simp]: "str_of s = str_of t \<longleftrightarrow> s = t"
  unfolding str_of_def by (rule inj_map_eq_map) (simp add: inj_def)

lemma setattr_fresh [simp]:
  "setattr (length h) name v (h @ Instance attrs # h') =
     Inr (h @ Instance (AList.update name v attrs) # h')"
  by (simp add: setattr_def)

lemma set_new_list_fresh [simp]:
  "set_new_list (length h) name (h @ Instance attrs # h') =
     Inr (h @ Instance (AList.update name (VRef (Suc (length h + length h'))) attrs) # h' @ [ListObj []])"
  by (simp add: set_new_list_def new_list_def setattr_def nth_append list_update_append)

lemma BaseReportRequest_init_fresh:
  "BaseReportRequest_init (length h) (h @ [Instance []]) =
     Inr (h @ [Instance
            [(str_of ''fromStaff'', VBool False),
             (str_of ''fromPortal'', VBool False),
             (str_of ''pagingEnabled'', VBool True),
             (str_of ''pageSize'', VInt 10),
             (str_of ''pageIndex'', VInt 0),
             (str_of ''exportEnabled'', VBool False),
             (str_of ''sorters'', VRef (length h + 1))],
           ListObj []])"
  by (simp add: BaseReportRequest_init_def)

lemma DriverTripTransactionReportRequest_init_fresh:
  "DriverTripTransactionReportRequest_init (length h) (h @ [Instance []]) =
     Inr (h @ [Instance
            [(str_of ''fromStaff'', VBool False),
             (str_of ''fromPortal'', VBool False),
             (str_of ''pagingEnabled'', VBool True),
             (str_of ''pageSize'', VInt 10),
             (str_of ''pageIndex'', VInt 0),
             (str_of ''exportEnabled'', VBool False),
             (str_of ''sorters'', VRef (length h + 1)),
             (str_of ''transactionId'', VNone),
             (str_of ''driverId'', VNone),
             (str_of ''tripId'', VNone),
             (str_of ''transactionTypes'', VRef (length h + 2)),
             (str_of ''transactionCategories'', VRef (length h + 3)),
             (str_of ''minAmountInRupee'', VNone),
             (str_of ''maxAmountInRupee'', VNone),
             (str_of ''minAmountInCents'', VNone),
             (str_of ''maxAmountInCents'', VNone),
             (str_of ''description'', VNone),
             (str_of ''dateType'', VStr (str_of ''CREATE_TIME'')),
             (str_of ''fromDate'', VNone),
             (str_of ''toDate'', VNone),
             (str_of ''createdBy'', VNone),
             (str_of ''withDriverProfile'', VBool False)],
           ListObj [], ListObj [], ListObj []])"
  by (simp add: DriverTripTransactionReportRequest_init_def BaseReportRequest_init_fresh)



lemma GatewayRequest_init_fresh:
  "GatewayRequest_init uuid4 now (length h) actionType requestData (h @ [Instance []]) =
     Inr (h @ [Instance
            [(str_of ''apiVersion'', VStr (str_of ''v2_10_0'')),
             (str_of ''messageId'', VStr uuid4),
             (str_of ''requestDate'', VStr now),
             (str_of ''validateOnly'', VBool False),
             (str_of ''actionType'', VStr (ActionType_value actionType)),
             (str_of ''requestData'', requestData)]])"
  by (simp add: GatewayRequest_init_def)

lemma GatewayRequest_fresh:
  "GatewayRequest uuid4 now actionType requestData h =
     Inr (length h, h @ [Instance
            [(str_of ''apiVersion'', VStr (str_of ''v2_10_0'')),
             (str_of ''messageId'', VStr uuid4),
             (str_of ''requestDate'', VStr now),
             (str_of ''validateOnly'', VBool False),
             (str_of ''actionType'', VStr (ActionType_value actionType)),
             (str_of ''requestData'', requestData)]])"
  by (simp add: GatewayRequest_def instantiate_def new_object_def GatewayRequest_init_fresh)

lemma snapshot_envelope:
  assumes "snapshot h {} requestData = Inr t"
  shows "snapshot (h @ [Instance
            [(str_of ''apiVersion'', VStr (str_of ''v2_10_0'')),
             (str_of ''messageId'', VStr uuid4),
             (str_of ''requestDate'', VStr now),
             (str_of ''validateOnly'', VBool False),
             (str_of ''actionType'', VStr tag),
             (str_of ''requestData'', requestData)]]) {} (VRef (length h))
     = Inr (PDict [(str_of ''apiVersion'', PStr (str_of ''v2_10_0'')),
             (str_of ''messageId'', PStr uuid4),
             (str_of ''requestDate'', PStr now),
             (str_of ''validateOnly'', PBool False),
             (str_of ''actionType'', PStr tag),
             (str_of ''requestData'', t)])"
proof -
  have "snapshot (h @ [Instance
            [(str_of ''apiVersion'', VStr (str_of ''v2_10_0'')),
             (str_of ''messageId'', VStr uuid4),
             (str_of ''requestDate'', VStr now),
             (str_of ''validateOnly'', VBool False),
             (str_of ''actionType'', VStr tag),
             (str_of ''requestData'', requestData)]]) ({} \<union> {length h}) requestData = Inr t"
    by (rule snapshot_extend [OF assms]) simp
  then show ?thesis by simp
qed

lemma sort_envelope_keys:
  "sort_key fst [(str_of ''apiVersion'', a), (str_of ''messageId'', b), (str_of ''requestDate'', c),
       (str_of ''validateOnly'', d), (str_of ''actionType'', e), (str_of ''requestData'', f)]
   = [(str_of ''actionType'', e), (str_of ''apiVersion'', a), (str_of ''messageId'', b),
      (str_of ''requestData'', f), (str_of ''requestDate'', c), (str_of ''validateOnly'', d)]"
  by (simp add: str_of_def)



lemma iterencode_envelope:
  "iterencode fr 0 (PDict [(str_of ''apiVersion'', PStr (str_of ''v2_10_0'')),
             (str_of ''messageId'', PStr uuid4),
             (str_of ''requestDate'', PStr now),
             (str_of ''validateOnly'', PBool False),
             (str_of ''actionType'', PStr tag),
             (str_of ''requestData'', t)]) =
               str_of ''{'' @ newline_indent 1
                    @ join (str_of '','' @ newline_indent 1)
                        [encode_basestring_ascii (str_of ''actionType'') @ str_of '': ''
                           @ encode_basestring_ascii tag,
                         encode_basestring_ascii (str_of ''apiVersion'') @ str_of '': ''
                           @ encode_basestring_ascii (str_of ''v2_10_0''),
                         encode_basestring_ascii (str_of ''messageId'') @ str_of '': ''
                           @ encode_basestring_ascii uuid4,
                         encode_basestring_ascii (str_of ''requestData'') @ str_of '': ''
                           @ iterencode fr 1 t,
                         encode_basestring_ascii (str_of ''requestDate'') @ str_of '': ''
                           @ encode_basestring_ascii now,
                         encode_basestring_ascii (str_of ''validateOnly'') @ str_of '': ''
                           @ str_of ''false'']
                    @ newline_indent 0 @ str_of ''}''"
  by (simp only: iterencode.simps sort_envelope_keys list.simps if_False list.map prod.case
        One_nat_def add_0 plus_nat.add_0)


lemma snapshot_instance_keys:
  assumes "snapshot h ms (VRef r) = Inr t" and "h ! r = Instance attrs"
  shows "\<exists>kvs. t = PDict kvs \<and> map fst kvs = map fst attrs"
proof -
  let ?f = "\<lambda>(k, v). bindE (snapshot h (insert r ms) v) (\<lambda>t. Inr (k, t))"
  from assms obtain kts where
    kts: "sequenceE (map ?f attrs) = Inr kts" and t: "t = PDict kts"
    by (auto simp: bindE_eq_Inr split: if_splits)
  from kts have "list_all2 (\<lambda>x y. ?f x = Inr y) attrs kts"
    by (simp only: sequenceE_map_Inr)
  then have "list_all2 (\<lambda>x y. fst y = fst x) attrs kts"
    by (rule list_all2_mono) (auto simp: bindE_eq_Inr)
  then have "map fst kts = map fst attrs"
    by (auto simp: list_all2_conv_all_nth intro: nth_equalityI)
  with t show ?thesis by blast
qed

lemma hex_digit_table:
  assumes "d < 16"
  shows "hex_digit d = str_of ''0123456789abcdef'' ! d"
proof -
  have "list_all (\<lambda>d. hex_digit d = str_of ''0123456789abcdef'' ! d) [0..<16]"
    by code_simp
  moreover have "d \<in> set [0..<16]" using assms by simp
  ultimately show ?thesis unfolding list_all_iff by blast
qed

lemma hex_digit_lower:
  assumes "d < 16"
  shows "is_lower_hex (hex_digit d)"
  using assms by (auto simp: hex_digit_def is_lower_hex_def)

lemma unat_byte_nibbles: "unat (b :: byte) div 16 < 16" "unat b mod 16 < 16"
proof -
  have "unat b < 256" using unsigned_less [of b, where 'a = nat] by simp
  then show "unat b div 16 < 16" by simp
  show "unat b mod 16 < 16" by simp
qed

lemma hex_of_byte_table:
  "hex_of_byte b = map (\<lambda>d. str_of ''0123456789abcdef'' ! d) [unat b div 16, unat b mod 16]"
  by (simp add: hex_of_byte_def hex_digit_table unat_byte_nibbles)

lemma hex_of_byte_lower_hex: "concat (map hex_of_byte bs) = lower_hex bs"
  unfolding lower_hex_def by (simp only: hex_of_byte_table [abs_def])

lemma lower_hex_chars: "list_all is_lower_hex (lower_hex bs)"
  unfolding hex_of_byte_lower_hex [symmetric]
  by (induction bs) (simp_all add: hex_of_byte_def hex_digit_lower unat_byte_nibbles)

lemma length_lower_hex: "length (lower_hex bs) = 2 * length bs"
  by (induction bs) (simp_all add: lower_hex_def)

lemma length_sha256: "length (sha256 m) = 32"
  by (simp add: sha256_def bytes_of_u32_def split: prod.splits)

lemma hmac_new_rfc2104: "hmac_digest (hmac_new key msg) = rfc2104_hmac_sha256 key msg"
  by (simp add: hmac_digest_def hmac_new_def rfc2104_hmac_sha256_def rfc2104_key_def
      hash_digest_def hash_update_def sha256_new_def Let_def)

lemma encodable_str_encode_utf8:
  "encodable s \<Longrightarrow> \<exists>bs. str_encode_utf8 s = Inr bs"
proof -
  assume e: "encodable s"
  have "\<exists>bss. sequenceE (map utf8_code_point s) = Inr bss"
    using e
  proof (induction s)
    case Nil
    show ?case by simp
  next
    case (Cons c s)
    then obtain bss where "sequenceE (map utf8_code_point s) = Inr bss"
      by (auto simp: encodable_def)
    moreover from Cons.prems obtain bs where "utf8_code_point c = Inr bs"
      by (cases "utf8_code_point c")
        (auto simp: encodable_def utf8_code_point_def split: if_splits)
    ultimately show ?case by simp
  qed
  then show ?thesis by (auto simp: str_encode_utf8_def)
qed

(*CLAIMS*)
section \<open>Properties of the request model and the serializer\<close>

text \<open>
  C1. \<open>Serializer.to_json\<close> is deterministic: two objects whose trees of fields
  agree up to the order in which the fields were set serialize to the same string,
  whatever heaps they live in, and the serialization succeeds for both. (The float
  formatting \<open>fr\<close> is any fixed function.)
\<close>

theorem to_json_deterministic:
  assumes "wf_heap h1" and "wf_heap h2"
    and "snapshot h1 {} (VRef a1) = Inr t1" and "snapshot h2 {} (VRef a2) = Inr t2"
    and "same_fields t1 t2"
  shows "to_json fr h1 a1 = Inr (json_dumps fr t1) \<and> to_json fr h2 a2 = Inr (json_dumps fr t1)"
proof -
  have "distinct_keys t1"
    by (rule snapshot_distinct_keys [OF assms(1) assms(3)])
  moreover have "distinct_keys t2"
    by (rule snapshot_distinct_keys [OF assms(2) assms(4)])
  ultimately have "json_dumps fr t1 = json_dumps fr t2"
    using assms(5) by (simp add: json_dumps_def iterencode_same_fields)
  then show ?thesis
    unfolding to_json_def assms(3) assms(4) by simp
qed

theorem to_json_deterministic_witness:
  "wf_heap example_heap_a \<and> wf_heap example_heap_b
   \<and> snapshot example_heap_a {} (VRef 0) = Inr example_tree_a
   \<and> snapshot example_heap_b {} (VRef 2) = Inr example_tree_b
   \<and> same_fields example_tree_a example_tree_b
   \<and> to_json (\<lambda>l. l) example_heap_a 0 = to_json (\<lambda>l. l) example_heap_b 2"
proof -
  have w1: "wf_heap example_heap_a" by (simp add: wf_heap_def example_heap_a_def)
  have w2: "wf_heap example_heap_b" by (simp add: wf_heap_def example_heap_b_def)
  have s1: "snapshot example_heap_a {} (VRef 0) = Inr example_tree_a"
    by (simp add: example_heap_a_def example_tree_a_def)
  have s2: "snapshot example_heap_b {} (VRef 2) = Inr example_tree_b"
    by (simp add: example_heap_b_def example_tree_b_def)
  have sf: "same_fields example_tree_a example_tree_b"
    by (simp add: example_tree_a_def example_tree_b_def insert_commute)
  have c: "to_json (\<lambda>l. l) example_heap_a 0 = Inr (json_dumps (\<lambda>l. l) example_tree_a)
         \<and> to_json (\<lambda>l. l) example_heap_b 2 = Inr (json_dumps (\<lambda>l. l) example_tree_a)"
    by (rule to_json_deterministic [OF w1 w2 s1 s2 sf])
  have "to_json (\<lambda>l. l) example_heap_a 0 = to_json (\<lambda>l. l) example_heap_b 2"
    by (simp only: conjunct1 [OF c] conjunct2 [OF c])
  with w1 w2 s1 s2 sf show ?thesis by (intro conjI)
qed

text \<open>
  C4. The zero-argument constructor of the credit-debit request does not return: its
  last statement reads the name \<open>false\<close>, which nothing binds, and raises
  \<open>NameError\<close>, on every heap.
\<close>

theorem DriverCreditDebitReportRequest_raises:
  "DriverCreditDebitReportRequest h = Inl (NameError (str_of ''false''))"
  by (simp add: DriverCreditDebitReportRequest_def instantiate_def new_object_def
      DriverCreditDebitReportRequest_init_def DriverTripTransactionReportRequest_init_fresh
      set_from_name_def lookup_name_def module_level_names_def)

text \<open>
  C5, as amended. On every heap, \<open>DriverTripTransactionReportRequest()\<close> returns a
  new instance with \<open>pagingEnabled = True\<close>, \<open>pageSize = 10\<close>, \<open>pageIndex = 0\<close>,
  \<open>sorters\<close>, \<open>transactionTypes\<close> and \<open>transactionCategories\<close> three distinct
  fresh empty lists, every other filter \<open>None\<close>, and \<open>dateType\<close> set to the tag of
  \<open>DateType.CREATE_TIME\<close>.
\<close>

theorem DriverTripTransactionReportRequest_defaults:
  "DriverTripTransactionReportRequest h =
     Inr (length h,
          h @ [Instance
            [(str_of ''fromStaff'', VBool False),
             (str_of ''fromPortal'', VBool False),
             (str_of ''pagingEnabled'', VBool True),
             (str_of ''pageSize'', VInt 10),
             (str_of ''pageIndex'', VInt 0),
             (str_of ''exportEnabled'', VBool False),
             (str_of ''sorters'', VRef (length h + 1)),
             (str_of ''transactionId'', VNone),
             (str_of ''driverId'', VNone),
             (str_of ''tripId'', VNone),
             (str_of ''transactionTypes'', VRef (length h + 2)),
             (str_of ''transactionCategories'', VRef (length h + 3)),
             (str_of ''minAmountInRupee'', VNone),
             (str_of ''maxAmountInRupee'', VNone),
             (str_of ''minAmountInCents'', VNone),
             (str_of ''maxAmountInCents'', VNone),
             (str_of ''description'', VNone),
             (str_of ''dateType'', VStr (DateType_value CREATE_TIME)),
             (str_of ''fromDate'', VNone),
             (str_of ''toDate'', VNone),
             (str_of ''createdBy'', VNone),
             (str_of ''withDriverProfile'', VBool False)],
           ListObj [], ListObj [], ListObj []])"
  by (simp add: DriverTripTransactionReportRequest_def instantiate_def new_object_def
      DriverTripTransactionReportRequest_init_fresh)

text \<open>
  C5 as stated fails: in a freshly constructed request the date-type tag is not
  unset, it is the string \<open>CREATE_TIME\<close>.
\<close>

theorem DriverTripTransactionReportRequest_dateType_counterexample:
  "bindE (DriverTripTransactionReportRequest [])
      (\<lambda>(self, h). getattr h (VRef self) (str_of ''dateType''))
     = Inr (VStr (str_of ''CREATE_TIME''))
   \<and> bindE (DriverTripTransactionReportRequest [])
      (\<lambda>(self, h). getattr h (VRef self) (str_of ''dateType'')) \<noteq> Inr VNone"
  by (simp add: DriverTripTransactionReportRequest_def instantiate_def new_object_def
      DriverTripTransactionReportRequest_init_fresh [of "[]", simplified] getattr_def)

text \<open>
  C6. For every action type and every request whose object graph can be read,
  \<open>GatewayRequest(actionType, requestData)\<close> returns a new instance, leaving the
  heap before it as it was, with \<open>apiVersion\<close> the tag \<open>v2_10_0\<close>,
  \<open>validateOnly\<close> \<open>False\<close>, \<open>actionType\<close> the member's string value and
  \<open>requestData\<close> the given request. Its serialization is the object with the six
  keys in alphabetical order, in which the request is written in place, one level
  deeper; a request that is an instance is written as an object with its own keys.
\<close>

theorem GatewayRequest_envelope:
  assumes "snapshot h {} requestData = Inr t"
  shows "\<exists>h'. GatewayRequest uuid4 now actionType requestData h = Inr (length h, h')
           \<and> prefix h h'
           \<and> getattr h' (VRef (length h)) (str_of ''apiVersion'') = Inr (VStr (str_of ''v2_10_0''))
           \<and> getattr h' (VRef (length h)) (str_of ''validateOnly'') = Inr (VBool False)
           \<and> getattr h' (VRef (length h)) (str_of ''actionType'')
                = Inr (VStr (ActionType_value actionType))
           \<and> getattr h' (VRef (length h)) (str_of ''requestData'') = Inr requestData
           \<and> to_json fr h' (length h) =
               Inr (str_of ''{'' @ newline_indent 1
                    @ join (str_of '','' @ newline_indent 1)
                        [encode_basestring_ascii (str_of ''actionType'') @ str_of '': ''
                           @ encode_basestring_ascii (ActionType_value actionType),
                         encode_basestring_ascii (str_of ''apiVersion'') @ str_of '': ''
                           @ encode_basestring_ascii (str_of ''v2_10_0''),
                         encode_basestring_ascii (str_of ''messageId'') @ str_of '': ''
                           @ encode_basestring_ascii uuid4,
                         encode_basestring_ascii (str_of ''requestData'') @ str_of '': ''
                           @ iterencode fr 1 t,
                         encode_basestring_ascii (str_of ''requestDate'') @ str_of '': ''
                           @ encode_basestring_ascii now,
                         encode_basestring_ascii (str_of ''validateOnly'') @ str_of '': ''
                           @ str_of ''false'']
                    @ newline_indent 0 @ str_of ''}'')
           \<and> (\<forall>r attrs. requestData = VRef r \<and> h ! r = Instance attrs
                  \<longrightarrow> (\<exists>kvs. t = PDict kvs \<and> map fst kvs = map fst attrs))"
proof -
  let ?env = "[(str_of ''apiVersion'', VStr (str_of ''v2_10_0'')),
             (str_of ''messageId'', VStr uuid4),
             (str_of ''requestDate'', VStr now),
             (str_of ''validateOnly'', VBool False),
             (str_of ''actionType'', VStr (ActionType_value actionType)),
             (str_of ''requestData'', requestData)]"
  let ?h' = "h @ [Instance ?env]"
  have c: "GatewayRequest uuid4 now actionType requestData h = Inr (length h, ?h')"
    by (rule GatewayRequest_fresh)
  have p: "prefix h ?h'" by simp
  have g1: "getattr ?h' (VRef (length h)) (str_of ''apiVersion'') = Inr (VStr (str_of ''v2_10_0''))"
    by (simp add: getattr_def)
  have g2: "getattr ?h' (VRef (length h)) (str_of ''validateOnly'') = Inr (VBool False)"
    by (simp add: getattr_def)
  have g3: "getattr ?h' (VRef (length h)) (str_of ''actionType'')
                = Inr (VStr (ActionType_value actionType))"
    by (simp add: getattr_def)
  have g4: "getattr ?h' (VRef (length h)) (str_of ''requestData'') = Inr requestData"
    by (simp add: getattr_def)
  have s: "snapshot ?h' {} (VRef (length h))
     = Inr (PDict [(str_of ''apiVersion'', PStr (str_of ''v2_10_0'')),
             (str_of ''messageId'', PStr uuid4),
             (str_of ''requestDate'', PStr now),
             (str_of ''validateOnly'', PBool False),
             (str_of ''actionType'', PStr (ActionType_value actionType)),
             (str_of ''requestData'', t)])"
    by (rule snapshot_envelope [OF assms])
  have j: "to_json fr ?h' (length h) =
               Inr (str_of ''{'' @ newline_indent 1
                    @ join (str_of '','' @ newline_indent 1)
                        [encode_basestring_ascii (str_of ''actionType'') @ str_of '': ''
                           @ encode_basestring_ascii (ActionType_value actionType),
                         encode_basestring_ascii (str_of ''apiVersion'') @ str_of '': ''
                           @ encode_basestring_ascii (str_of ''v2_10_0''),
                         encode_basestring_ascii (str_of ''messageId'') @ str_of '': ''
                           @ encode_basestring_ascii uuid4,
                         encode_basestring_ascii (str_of ''requestData'') @ str_of '': ''
                           @ iterencode fr 1 t,
                         encode_basestring_ascii (str_of ''requestDate'') @ str_of '': ''
                           @ encode_basestring_ascii now,
                         encode_basestring_ascii (str_of ''validateOnly'') @ str_of '': ''
                           @ str_of ''false'']
                    @ newline_indent 0 @ str_of ''}'')"
    by (simp only: to_json_def s bindE_simps json_dumps_def iterencode_envelope)
  have n: "\<forall>r attrs. requestData = VRef r \<and> h ! r = Instance attrs
                  \<longrightarrow> (\<exists>kvs. t = PDict kvs \<and> map fst kvs = map fst attrs)"
    using assms snapshot_instance_keys by blast
  show ?thesis
    by (rule exI [of _ ?h']) (intro conjI c p g1 g2 g3 g4 j n)
qed


theorem GatewayRequest_envelope_witness:
  "snapshot example_heap_a {} (VRef 0) = Inr example_tree_a
   \<and> (\<exists>h' body.
         GatewayRequest (str_of ''m-1'') (str_of ''2019-01-01T00:00:00'') DRIVER_TRIP_TRANSACTION
             (VRef 0) example_heap_a = Inr (3, h')
         \<and> getattr h' (VRef 3) (str_of ''apiVersion'') = Inr (VStr (str_of ''v2_10_0''))
         \<and> getattr h' (VRef 3) (str_of ''validateOnly'') = Inr (VBool False)
         \<and> getattr h' (VRef 3) (str_of ''actionType'')
              = Inr (VStr (str_of ''DRIVER_TRIP_TRANSACTION''))
         \<and> getattr h' (VRef 3) (str_of ''requestData'') = Inr (VRef 0)
         \<and> to_json (\<lambda>l. l) h' 3 = Inr body)"
proof -
  have s1: "snapshot example_heap_a {} (VRef 0) = Inr example_tree_a"
    by (simp add: example_heap_a_def example_tree_a_def)
  have l: "length example_heap_a = 3" by (simp add: example_heap_a_def)
  from GatewayRequest_envelope [OF s1, of "str_of ''m-1''" "str_of ''2019-01-01T00:00:00''"
      DRIVER_TRIP_TRANSACTION "\<lambda>l. l"]
  obtain h' body where
    "GatewayRequest (str_of ''m-1'') (str_of ''2019-01-01T00:00:00'') DRIVER_TRIP_TRANSACTION
             (VRef 0) example_heap_a = Inr (length example_heap_a, h')"
    "getattr h' (VRef (length example_heap_a)) (str_of ''apiVersion'')
       = Inr (VStr (str_of ''v2_10_0''))"
    "getattr h' (VRef (length example_heap_a)) (str_of ''validateOnly'') = Inr (VBool False)"
    "getattr h' (VRef (length example_heap_a)) (str_of ''actionType'')
       = Inr (VStr (ActionType_value DRIVER_TRIP_TRANSACTION))"
    "getattr h' (VRef (length example_heap_a)) (str_of ''requestData'') = Inr (VRef 0)"
    "to_json (\<lambda>l. l) h' (length example_heap_a) = Inr body"
    by blast
  then show ?thesis
    unfolding l using s1 by (intro conjI exI [of _ h'] exI [of _ body]) simp_all
qed

section \<open>Properties of the signer\<close>

text \<open>
  C3. For every secret and every body that are encodable (no lone surrogate: only
  such strings have UTF-8 bytes), \<open>generate_hmac\<close> returns, and what it returns is
  the HMAC-SHA-256 of RFC 2104 of the UTF-8 bytes of the body under the UTF-8
  bytes of the secret, written as 64 lowercase hexadecimal digits. Being a function
  of its two arguments, it gives the same signature for the same inputs.
\<close>

theorem generate_hmac_is_hmac_sha256:
  assumes "encodable secretKey" and "encodable rawJson"
  shows "\<exists>key msg. str_encode_utf8 secretKey = Inr key \<and> str_encode_utf8 rawJson = Inr msg
           \<and> generate_hmac secretKey rawJson = Inr (lower_hex (rfc2104_hmac_sha256 key msg))
           \<and> length (lower_hex (rfc2104_hmac_sha256 key msg)) = 64
           \<and> list_all is_lower_hex (lower_hex (rfc2104_hmac_sha256 key msg))"
proof -
  from assms obtain key msg where
    k: "str_encode_utf8 secretKey = Inr key" and m: "str_encode_utf8 rawJson = Inr msg"
    by (blast dest: encodable_str_encode_utf8)
  have "generate_hmac secretKey rawJson = Inr (lower_hex (rfc2104_hmac_sha256 key msg))"
    by (simp add: generate_hmac_def k m hmac_hexdigest_def hex_of_byte_lower_hex hmac_new_rfc2104)
  moreover have "length (lower_hex (rfc2104_hmac_sha256 key msg)) = 64"
    by (simp add: length_lower_hex rfc2104_hmac_sha256_def length_sha256)
  ultimately show ?thesis
    using k m lower_hex_chars by blast
qed

theorem generate_hmac_is_hmac_sha256_witness:
  "encodable (str_of ''keep-this-secret'') \<and> encodable (str_of ''{}'')
   \<and> (\<exists>key msg. str_encode_utf8 (str_of ''keep-this-secret'') = Inr key
         \<and> str_encode_utf8 (str_of ''{}'') = Inr msg
         \<and> generate_hmac (str_of ''keep-this-secret'') (str_of ''{}'')
             = Inr (lower_hex (rfc2104_hmac_sha256 key msg))
         \<and> length (lower_hex (rfc2104_hmac_sha256 key msg)) = 64
         \<and> list_all is_lower_hex (lower_hex (rfc2104_hmac_sha256 key msg)))"
proof -
  have a: "encodable (str_of ''keep-this-secret'')" by (simp add: encodable_def str_of_def)
  have b: "encodable (str_of ''{}'')" by (simp add: encodable_def str_of_def)
  show ?thesis
    by (intro conjI a b generate_hmac_is_hmac_sha256 [OF a b])
qed

end
